theory Spec2Isabelle
  imports Complex_Main
begin

section \<open>Data model\<close>

text \<open>
  The application is a React front end. Its decision logic lives in three components:
  \<^item> \<open>App\<close> keeps the session's assessment history (\<open>handleAssessmentComplete\<close>);
  \<^item> \<open>Dashboard\<close> averages three metrics over the history and colours a score
    (\<open>getImpactColor\<close>);
  \<^item> \<open>ComparisonTool\<close> keeps a selection of assessments, asks the back end for a
    comparison and renders a table with the best value per metric
    (\<open>renderComparisonTable\<close>, \<open>getMetricColor\<close>, \<open>getImprovementIcon\<close>).

  Metric values arrive as JSON numbers, so a value stored in a \<open>results\<close> object is a
  finite number; it is modelled as a \<open>real\<close>, and the rounding of IEEE doubles is not
  modelled. The values JavaScript arithmetic can produce beyond the finite numbers
  (\<open>Infinity\<close>, \<open>-Infinity\<close>, \<open>NaN\<close>) and \<open>null\<close> are constructors of \<open>jsval\<close>.
\<close>

datatype jsval = Num real | PosInfinity | NegInfinity | NaN | Null

text \<open>
  A \<open>results\<close> object is an association list from metric key to value (looked up with
  \<open>map_of\<close>). An assessment without a \<open>results\<close> field has \<open>results = None\<close>.
\<close>

type_synonym results_object = "(string \<times> real) list"

record assessment =
  metal_type :: string
  production_route :: string
  results :: "results_object option"

text \<open>\<open>x || 0\<close> on a metric read: \<open>undefined\<close> and \<open>0\<close> are falsy and give \<open>0\<close>.\<close>

definition or_zero :: "real option \<Rightarrow> real" where
  "or_zero x = (case x of None \<Rightarrow> 0 | Some v \<Rightarrow> if v = 0 then 0 else v)"

section \<open>App: the assessment history\<close>

text \<open>
  \<^verbatim>\<open>
  const handleAssessmentComplete = (assessmentData) => {
    setCurrentAssessment(assessmentData);
    setAssessmentHistory(prev => [assessmentData, ...prev.slice(0, 9)]);
  };
  \<close>
\<close>

record app_state =
  currentAssessment :: "assessment option"
  assessmentHistory :: "assessment list"

definition App_initial :: app_state where
  "App_initial = \<lparr>currentAssessment = None, assessmentHistory = []\<rparr>"

definition handleAssessmentComplete :: "app_state \<Rightarrow> assessment \<Rightarrow> app_state" where
  "handleAssessmentComplete s assessmentData =
     \<lparr>currentAssessment = Some assessmentData,
      assessmentHistory = assessmentData # take 9 (assessmentHistory s)\<rparr>"

section \<open>Dashboard: statistics and impact colour\<close>

text \<open>
  \<^verbatim>\<open>
  const [dashboardStats, setDashboardStats] = useState({
    totalAssessments: 0, avgCarbonFootprint: 0,
    avgSustainabilityScore: 0, avgCircularityIndex: 0 });

  useEffect(() => {
    if (assessmentHistory.length > 0) {
      const stats = assessmentHistory.reduce((acc, assessment) => {
        const results = assessment.results || {};
        return {
          totalAssessments: acc.totalAssessments + 1,
          avgCarbonFootprint: acc.avgCarbonFootprint + (results.carbon_footprint || 0),
          ... };
      }, { totalAssessments: 0, ... });
      setDashboardStats({
        totalAssessments: stats.totalAssessments,
        avgCarbonFootprint: stats.avgCarbonFootprint / stats.totalAssessments, ... });
    }
  }, [assessmentHistory]);
  \<close>
  The effect is a function from the current statistics and the history to the new
  statistics; with an empty history it sets nothing.
\<close>

record dashboard_stats =
  totalAssessments :: nat
  avgCarbonFootprint :: real
  avgSustainabilityScore :: real
  avgCircularityIndex :: real

definition dashboardStats_initial :: dashboard_stats where
  "dashboardStats_initial =
     \<lparr>totalAssessments = 0, avgCarbonFootprint = 0,
      avgSustainabilityScore = 0, avgCircularityIndex = 0\<rparr>"

definition results_or_empty :: "assessment \<Rightarrow> results_object" where
  "results_or_empty a = (case results a of None \<Rightarrow> [] | Some r \<Rightarrow> r)"

definition stats_step :: "dashboard_stats \<Rightarrow> assessment \<Rightarrow> dashboard_stats" where
  "stats_step acc a =
     (let r = results_or_empty a in
      \<lparr>totalAssessments = totalAssessments acc + 1,
       avgCarbonFootprint = avgCarbonFootprint acc + or_zero (map_of r ''carbon_footprint''),
       avgSustainabilityScore =
         avgSustainabilityScore acc + or_zero (map_of r ''sustainability_score''),
       avgCircularityIndex =
         avgCircularityIndex acc + or_zero (map_of r ''circularity_index'')\<rparr>)"

definition stats_reduce :: "assessment list \<Rightarrow> dashboard_stats" where
  "stats_reduce history = foldl stats_step dashboardStats_initial history"

definition Dashboard_effect :: "dashboard_stats \<Rightarrow> assessment list \<Rightarrow> dashboard_stats" where
  "Dashboard_effect current history =
     (if length history > 0 then
        (let stats = stats_reduce history in
         \<lparr>totalAssessments = totalAssessments stats,
          avgCarbonFootprint = avgCarbonFootprint stats / real (totalAssessments stats),
          avgSustainabilityScore = avgSustainabilityScore stats / real (totalAssessments stats),
          avgCircularityIndex = avgCircularityIndex stats / real (totalAssessments stats)\<rparr>)
      else current)"

text \<open>The statistics a freshly mounted dashboard shows for a history.\<close>

definition Dashboard_stats :: "assessment list \<Rightarrow> dashboard_stats" where
  "Dashboard_stats history = Dashboard_effect dashboardStats_initial history"

text \<open>
  \<^verbatim>\<open>
  const getImpactColor = (value, type) => {
    if (type === 'carbon') {
      if (value < 50) return 'success';
      if (value < 200) return 'warning';
      return 'error';
    }
    if (type === 'sustainability' || type === 'circularity') {
      if (value > 0.8 || value > 80) return 'success';
      if (value > 0.6 || value > 60) return 'warning';
      return 'error';
    }
    return 'primary';
  };
  \<close>
  The dashboard passes \<open>assessment.results?.sustainability_score\<close>, which may be
  \<open>undefined\<close> (here \<open>None\<close>); every comparison with \<open>undefined\<close> is false.
\<close>

definition js_lt_opt :: "real option \<Rightarrow> real \<Rightarrow> bool" where
  "js_lt_opt x c = (case x of None \<Rightarrow> False | Some v \<Rightarrow> v < c)"

definition js_gt_opt :: "real option \<Rightarrow> real \<Rightarrow> bool" where
  "js_gt_opt x c = (case x of None \<Rightarrow> False | Some v \<Rightarrow> v > c)"

definition getImpactColor :: "real option \<Rightarrow> string \<Rightarrow> string" where
  "getImpactColor v type =
     (if type = ''carbon'' then
        (if js_lt_opt v 50 then ''success''
         else if js_lt_opt v 200 then ''warning''
         else ''error'')
      else if type = ''sustainability'' \<or> type = ''circularity'' then
        (if js_gt_opt v (8 / 10) \<or> js_gt_opt v 80 then ''success''
         else if js_gt_opt v (6 / 10) \<or> js_gt_opt v 60 then ''warning''
         else ''error'')
      else ''primary'')"

section \<open>ComparisonTool: colours, improvement, best value\<close>

text \<open>
  \<^verbatim>\<open>
  const getMetricColor = (value, metric) => {
    // Lower is better for carbon footprint, energy, water, waste
    const lowerIsBetter = ['carbon_footprint', 'energy_consumption', 'water_usage',
                           'waste_generation'];
    // Higher is better for sustainability, circularity, efficiency
    const higherIsBetter = ['sustainability_score', 'circularity_index',
                            'material_efficiency', 'recycling_potential'];
    if (lowerIsBetter.includes(metric)) {
      return value < 50 ? 'success' : value < 100 ? 'warning' : 'error';
    } else if (higherIsBetter.includes(metric)) {
      return value > 80 ? 'success' : value > 60 ? 'warning' : 'error';
    }
    return 'primary';
  };
  \<close>
\<close>

definition lowerIsBetter :: "string list" where
  "lowerIsBetter =
     [''carbon_footprint'', ''energy_consumption'', ''water_usage'', ''waste_generation'']"

definition higherIsBetter :: "string list" where
  "higherIsBetter =
     [''sustainability_score'', ''circularity_index'', ''material_efficiency'',
      ''recycling_potential'']"

definition getMetricColor :: "real \<Rightarrow> string \<Rightarrow> string" where
  "getMetricColor v metric =
     (if metric \<in> set lowerIsBetter then
        (if v < 50 then ''success'' else if v < 100 then ''warning'' else ''error'')
      else if metric \<in> set higherIsBetter then
        (if v > 80 then ''success'' else if v > 60 then ''warning'' else ''error'')
      else ''primary'')"

text \<open>
  JavaScript division of finite numbers: a zero divisor gives an infinity with the sign
  of the dividend, or \<open>NaN\<close> for \<open>0 / 0\<close>; nothing is thrown. (The divisor of the program
  is a value that went through \<open>|| 0\<close>, so it is never the negative zero.)
\<close>

definition js_div :: "real \<Rightarrow> real \<Rightarrow> jsval" where
  "js_div a b =
     (if b \<noteq> 0 then Num (a / b)
      else if a > 0 then PosInfinity
      else if a < 0 then NegInfinity
      else NaN)"

text \<open>Multiplication by a finite number; \<open>null\<close> converts to \<open>0\<close>.\<close>

definition js_times :: "jsval \<Rightarrow> real \<Rightarrow> jsval" where
  "js_times a c =
     (case a of
        Num x \<Rightarrow> Num (x * c)
      | PosInfinity \<Rightarrow> (if c > 0 then PosInfinity else if c < 0 then NegInfinity else NaN)
      | NegInfinity \<Rightarrow> (if c > 0 then NegInfinity else if c < 0 then PosInfinity else NaN)
      | NaN \<Rightarrow> NaN
      | Null \<Rightarrow> Num (0 * c))"

text \<open>The relational operators against a finite number; with \<open>NaN\<close> both are false.\<close>

definition js_gt :: "jsval \<Rightarrow> real \<Rightarrow> bool" where
  "js_gt a c =
     (case a of Num x \<Rightarrow> x > c | PosInfinity \<Rightarrow> True | NegInfinity \<Rightarrow> False
      | NaN \<Rightarrow> False | Null \<Rightarrow> 0 > c)"

definition js_lt :: "jsval \<Rightarrow> real \<Rightarrow> bool" where
  "js_lt a c =
     (case a of Num x \<Rightarrow> x < c | PosInfinity \<Rightarrow> False | NegInfinity \<Rightarrow> True
      | NaN \<Rightarrow> False | Null \<Rightarrow> 0 < c)"

text \<open>
  \<^verbatim>\<open>
  const getImprovementIcon = (current, baseline) => {
    const improvement = ((baseline - current) / baseline) * 100;
    if (improvement > 5) return <TrendingUp color="success" />;
    if (improvement < -5) return <TrendingDown color="error" />;
    return <Remove color="warning" />;
  };
  \<close>
  \<open>improvement\<close> is the local constant of that name; the icon carries its colour.
\<close>

datatype icon = TrendingUp_success | TrendingDown_error | Remove_warning

definition improvement :: "real \<Rightarrow> real \<Rightarrow> jsval" where
  "improvement current baseline = js_times (js_div (baseline - current) baseline) 100"

definition getImprovementIcon :: "real \<Rightarrow> real \<Rightarrow> icon" where
  "getImprovementIcon current baseline =
     (if js_gt (improvement current baseline) 5 then TrendingUp_success
      else if js_lt (improvement current baseline) (- 5) then TrendingDown_error
      else Remove_warning)"

text \<open>
  \<open>Math.min(...values)\<close> and \<open>Math.max(...values)\<close>: without arguments they return
  \<open>Infinity\<close> and \<open>-Infinity\<close>.
\<close>

fun Math_min :: "real list \<Rightarrow> jsval" where
  "Math_min [] = PosInfinity"
| "Math_min (x # xs) = Num (fold min xs x)"

fun Math_max :: "real list \<Rightarrow> jsval" where
  "Math_max [] = NegInfinity"
| "Math_max (x # xs) = Num (fold max xs x)"

text \<open>
  \<open>values.indexOf(v)\<close>: the first index whose element is strictly equal to \<open>v\<close>, or
  \<open>-1\<close>. The elements are finite numbers, so only a finite \<open>v\<close> can be found.
\<close>

fun indexOf :: "real list \<Rightarrow> jsval \<Rightarrow> int" where
  "indexOf [] v = - 1"
| "indexOf (x # xs) v =
     (if Num x = v then 0
      else (let r = indexOf xs v in if r < 0 then - 1 else r + 1))"

text \<open>
  \<^verbatim>\<open>
  const metrics = [ { key: 'carbon_footprint', ... }, { key: 'energy_consumption', ... },
    { key: 'water_usage', ... }, { key: 'sustainability_score', ... },
    { key: 'circularity_index', ... }, { key: 'material_efficiency', ... } ];
  ...
  const bestValue = metric.key === 'carbon_footprint' || metric.key === 'energy_consumption'
      || metric.key === 'water_usage'
    ? Math.min(...values) : Math.max(...values);
  const bestIndex = values.indexOf(bestValue);
  \<close>
\<close>

definition metrics :: "string list" where
  "metrics =
     [''carbon_footprint'', ''energy_consumption'', ''water_usage'',
      ''sustainability_score'', ''circularity_index'', ''material_efficiency'']"

definition bestValue :: "string \<Rightarrow> real list \<Rightarrow> jsval" where
  "bestValue key vs =
     (if key = ''carbon_footprint'' \<or> key = ''energy_consumption'' \<or> key = ''water_usage''
      then Math_min vs else Math_max vs)"

definition bestIndex :: "string \<Rightarrow> real list \<Rightarrow> int" where
  "bestIndex key vs = indexOf vs (bestValue key vs)"

section \<open>ComparisonTool: state, selection and the request\<close>

text \<open>
  The component's state. \<open>selectedAssessments\<close> holds indices into
  \<open>availableAssessments\<close>; \<open>comparisonResults\<close> is the back end's answer, of which the
  component reads only \<open>recommendations\<close>.
\<close>

record comparison_response =
  recommendations :: "string option"

record comparison_state =
  selectedAssessments :: "nat list"
  comparisonResults :: "comparison_response option"
  loading :: bool
  error :: string
  availableAssessments :: "assessment list"

definition ComparisonTool_initial :: comparison_state where
  "ComparisonTool_initial =
     \<lparr>selectedAssessments = [], comparisonResults = None, loading = False,
      error = [], availableAssessments = []\<rparr>"

text \<open>
  \<^verbatim>\<open>
  useEffect(() => {
    // Filter assessments that have results
    const validAssessments = assessmentHistory.filter(assessment =>
      assessment.results && Object.keys(assessment.results).length > 0);
    setAvailableAssessments(validAssessments);
  }, [assessmentHistory]);
  \<close>
\<close>

definition has_results :: "assessment \<Rightarrow> bool" where
  "has_results a = (case results a of None \<Rightarrow> False | Some r \<Rightarrow> length (map fst r) > 0)"

definition validAssessments :: "assessment list \<Rightarrow> assessment list" where
  "validAssessments history = filter has_results history"

definition ComparisonTool_effect :: "comparison_state \<Rightarrow> assessment list \<Rightarrow> comparison_state" where
  "ComparisonTool_effect s history = s\<lparr>availableAssessments := validAssessments history\<rparr>"

text \<open>
  \<^verbatim>\<open>
  const handleAddAssessment = (assessmentIndex) => {
    if (selectedAssessments.length < 4 && !selectedAssessments.includes(assessmentIndex)) {
      setSelectedAssessments([...selectedAssessments, assessmentIndex]);
    }
  };
  const handleRemoveAssessment = (assessmentIndex) => {
    setSelectedAssessments(selectedAssessments.filter(index => index !== assessmentIndex));
    setComparisonResults(null);
  };
  \<close>
\<close>

definition handleAddAssessment :: "comparison_state \<Rightarrow> nat \<Rightarrow> comparison_state" where
  "handleAddAssessment s assessmentIndex =
     (if length (selectedAssessments s) < 4 \<and> assessmentIndex \<notin> set (selectedAssessments s)
      then s\<lparr>selectedAssessments := selectedAssessments s @ [assessmentIndex]\<rparr>
      else s)"

definition handleRemoveAssessment :: "comparison_state \<Rightarrow> nat \<Rightarrow> comparison_state" where
  "handleRemoveAssessment s assessmentIndex =
     s\<lparr>selectedAssessments := filter (\<lambda>index. index \<noteq> assessmentIndex) (selectedAssessments s),
       comparisonResults := None\<rparr>"

text \<open>
  The cards of the selection grid are rendered from
  \<open>availableAssessments.map((assessment, index) => ...)\<close>, so the indices a user can
  add are those below the length of \<open>availableAssessments\<close>.
\<close>

definition offered :: "comparison_state \<Rightarrow> nat \<Rightarrow> bool" where
  "offered s assessmentIndex = (assessmentIndex < length (availableAssessments s))"



definition array_get :: "'a list \<Rightarrow> nat \<Rightarrow> 'a option" where
  "array_get xs i = (if i < length xs then Some (xs ! i) else None)"




section \<open>ComparisonTool: the comparison table\<close>

text \<open>
  \<^verbatim>\<open>
  const values = selectedAssessments.map(index =>
    availableAssessments[index].results[metric.key] || 0);
  \<close>
  Reading \<open>.results\<close> of \<open>undefined\<close>, or a key of a missing \<open>results\<close>, throws a
  \<open>TypeError\<close>.
\<close>

datatype js_error = TypeError

definition metric_value :: "assessment list \<Rightarrow> string \<Rightarrow> nat \<Rightarrow> js_error + real" where
  "metric_value avail key index =
     (case array_get avail index of
        None \<Rightarrow> Inl TypeError
      | Some a \<Rightarrow>
          (case results a of
             None \<Rightarrow> Inl TypeError
           | Some r \<Rightarrow> Inr (or_zero (map_of r key))))"

fun metric_values :: "assessment list \<Rightarrow> string \<Rightarrow> nat list \<Rightarrow> js_error + real list" where
  "metric_values avail key [] = Inr []"
| "metric_values avail key (index # rest) =
     (case metric_value avail key index of
        Inl e \<Rightarrow> Inl e
      | Inr v \<Rightarrow>
          (case metric_values avail key rest of
             Inl e \<Rightarrow> Inl e
           | Inr vs \<Rightarrow> Inr (v # vs)))"

text \<open>
  One row of the table: per selected assessment a chip with the value and its colour,
  and from the second column on the improvement icon against \<open>values[0]\<close>; then the
  ``Best'' chip.
  \<^verbatim>\<open>
  {values.map((value, i) => (
      <Chip label={`${value.toFixed(1)} ${metric.unit}`}
            color={i === bestIndex ? 'success' : getMetricColor(value, metric.key)} />
      {i > 0 && getImprovementIcon(value, values[0])} ))}
  <Chip label={selectedAssessments[bestIndex] !== undefined ?
               `Option ${bestIndex + 1}` : 'N/A'} />
  \<close>
  The model keeps the value of a chip, not its formatted text.
\<close>

datatype best_label = Option_number int | Not_available

record table_cell =
  cell_value :: real
  cell_color :: string
  cell_icon :: "icon option"

record table_row =
  row_key :: string
  row_cells :: "table_cell list"
  row_bestValue :: jsval
  row_bestIndex :: int
  row_best :: best_label

definition render_cell :: "string \<Rightarrow> real list \<Rightarrow> nat \<Rightarrow> table_cell" where
  "render_cell key vs i =
     \<lparr>cell_value = vs ! i,
      cell_color = (if int i = bestIndex key vs then ''success'' else getMetricColor (vs ! i) key),
      cell_icon = (if i > 0 then Some (getImprovementIcon (vs ! i) (vs ! 0)) else None)\<rparr>"

definition render_row :: "nat list \<Rightarrow> string \<Rightarrow> real list \<Rightarrow> table_row" where
  "render_row selected key vs =
     \<lparr>row_key = key,
      row_cells = map (render_cell key vs) [0 ..< length vs],
      row_bestValue = bestValue key vs,
      row_bestIndex = bestIndex key vs,
      row_best =
        (if 0 \<le> bestIndex key vs \<and> bestIndex key vs < int (length selected)
         then Option_number (bestIndex key vs + 1) else Not_available)\<rparr>"

definition comparison_row :: "assessment list \<Rightarrow> nat list \<Rightarrow> string \<Rightarrow> js_error + table_row" where
  "comparison_row avail selected key =
     (case metric_values avail key selected of
        Inl e \<Rightarrow> Inl e
      | Inr vs \<Rightarrow> Inr (render_row selected key vs))"

fun comparison_rows :: "assessment list \<Rightarrow> nat list \<Rightarrow> string list \<Rightarrow> js_error + table_row list" where
  "comparison_rows avail selected [] = Inr []"
| "comparison_rows avail selected (key # keys) =
     (case comparison_row avail selected key of
        Inl e \<Rightarrow> Inl e
      | Inr row \<Rightarrow>
          (case comparison_rows avail selected keys of
             Inl e \<Rightarrow> Inl e
           | Inr rows \<Rightarrow> Inr (row # rows)))"

text \<open>\<open>renderComparisonTable\<close>: nothing (\<open>None\<close>) while there is no comparison result.\<close>

definition renderComparisonTable :: "comparison_state \<Rightarrow> js_error + table_row list option" where
  "renderComparisonTable s =
     (if comparisonResults s = None then Inr None
      else (case comparison_rows (availableAssessments s) (selectedAssessments s) metrics of
              Inl e \<Rightarrow> Inl e
            | Inr rows \<Rightarrow> Inr (Some rows)))"

section \<open>The selection invariant\<close>

text \<open>
  The selected indices are pairwise distinct, at most four, and each one is the index of
  an offered assessment that has results.
\<close>

definition selection_inv :: "comparison_state \<Rightarrow> bool" where
  "selection_inv s =
     (distinct (selectedAssessments s)
    \<and> length (selectedAssessments s) \<le> 4
    \<and> (\<forall>i \<in> set (selectedAssessments s).
          offered s i \<and> has_results (availableAssessments s ! i)))"

text \<open>
  A user's clicks on the selection grid, and the state after a sequence of them. The grid
  shows an add button only on the cards of \<open>availableAssessments\<close>.
\<close>

datatype selection_event = Add_clicked nat | Remove_clicked nat

fun handle_event :: "comparison_state \<Rightarrow> selection_event \<Rightarrow> comparison_state" where
  "handle_event s (Add_clicked i) = handleAddAssessment s i"
| "handle_event s (Remove_clicked i) = handleRemoveAssessment s i"

fun event_offered :: "assessment list \<Rightarrow> selection_event \<Rightarrow> bool" where
  "event_offered history (Add_clicked i) = (i < length (validAssessments history))"
| "event_offered history (Remove_clicked i) = True"

definition ComparisonTool_mounted :: "assessment list \<Rightarrow> comparison_state" where
  "ComparisonTool_mounted history = ComparisonTool_effect ComparisonTool_initial history"

section \<open>Example data\<close>

definition steel_primary :: assessment where
  "steel_primary =
     \<lparr>metal_type = ''steel'', production_route = ''primary'',
      results = Some [(''carbon_footprint'', 80), (''sustainability_score'', 70)]\<rparr>"

definition steel_recycling :: assessment where
  "steel_recycling =
     \<lparr>metal_type = ''steel'', production_route = ''recycling'',
      results = Some [(''carbon_footprint'', 40), (''sustainability_score'', 85)]\<rparr>"

definition copper_without_carbon :: assessment where
  "copper_without_carbon =
     \<lparr>metal_type = ''copper'', production_route = ''primary'',
      results = Some [(''sustainability_score'', 70)]\<rparr>"

definition copper_zero_carbon :: assessment where
  "copper_zero_carbon =
     \<lparr>metal_type = ''copper'', production_route = ''primary'',
      results = Some [(''carbon_footprint'', 0), (''sustainability_score'', 70)]\<rparr>"

definition empty_results :: assessment where
  "empty_results = \<lparr>metal_type = ''zinc'', production_route = ''primary'', results = Some []\<rparr>"

definition aluminium_primary :: assessment where
  "aluminium_primary =
     \<lparr>metal_type = ''aluminium'', production_route = ''primary'',
      results = Some [(''carbon_footprint'', 80), (''waste_generation'', 10)]\<rparr>"

definition aluminium_recycling :: assessment where
  "aluminium_recycling =
     \<lparr>metal_type = ''aluminium'', production_route = ''recycling'',
      results = Some [(''carbon_footprint'', 40), (''waste_generation'', 90)]\<rparr>"



text \<open>The component's state while selecting, and after a successful comparison.\<close>

definition selecting :: "assessment list \<Rightarrow> nat list \<Rightarrow> comparison_state" where
  "selecting avail selected =
     \<lparr>selectedAssessments = selected, comparisonResults = None,
      loading = False, error = [], availableAssessments = avail\<rparr>"

definition compared :: "assessment list \<Rightarrow> nat list \<Rightarrow> comparison_state" where
  "compared avail selected =
     \<lparr>selectedAssessments = selected, comparisonResults = Some \<lparr>recommendations = None\<rparr>,
      loading = False, error = [], availableAssessments = avail\<rparr>"

section \<open>The history is bounded and newest first\<close>

lemma history_cons:
  "assessmentHistory (handleAssessmentComplete s a) = a # take 9 (assessmentHistory s)"
  by (simp add: handleAssessmentComplete_def)

text \<open>
  Claim C8. The history holds at most 10 records, newest first: completing an assessment
  puts the new record at the front, keeps the previous records in their order and
  unchanged behind it, and drops the oldest one exactly when ten are already stored.
\<close>

theorem history_bounded_newest_first:
  fixes s :: app_state and a :: assessment
  defines "old \<equiv> assessmentHistory s"
  defines "new \<equiv> assessmentHistory (handleAssessmentComplete s a)"
  shows "length new \<le> 10
       \<and> length new = min 10 (length old + 1)
       \<and> new ! 0 = a
       \<and> (\<forall>i. i + 1 < length new \<longrightarrow> new ! (i + 1) = old ! i)
       \<and> (length old < 10 \<longrightarrow> new = a # old)
       \<and> (length old \<ge> 10 \<longrightarrow> new = a # take 9 old \<and> length new = 10)"
  unfolding old_def new_def history_cons by auto

theorem history_bounded_newest_first_witness:
  "assessmentHistory (handleAssessmentComplete
      \<lparr>currentAssessment = None,
       assessmentHistory =
         map (\<lambda>m. \<lparr>metal_type = m, production_route = ''primary'', results = None\<rparr>)
           [''a'', ''b'', ''c'', ''d'', ''e'', ''f'', ''g'', ''h'', ''i'', ''j'']\<rparr>
      \<lparr>metal_type = ''new'', production_route = ''primary'', results = None\<rparr>)
   = map (\<lambda>m. \<lparr>metal_type = m, production_route = ''primary'', results = None\<rparr>)
       [''new'', ''a'', ''b'', ''c'', ''d'', ''e'', ''f'', ''g'', ''h'', ''i'']"
  using history_bounded_newest_first
    [of "\<lparr>currentAssessment = None,
         assessmentHistory =
           map (\<lambda>m. \<lparr>metal_type = m, production_route = ''primary'', results = None\<rparr>)
             [''a'', ''b'', ''c'', ''d'', ''e'', ''f'', ''g'', ''h'', ''i'', ''j'']\<rparr>"
        "\<lparr>metal_type = ''new'', production_route = ''primary'', results = None\<rparr>"]
  by simp

section \<open>The dashboard on an empty history\<close>

text \<open>
  Claim C9. For an empty history the dashboard's statistics are the all-zero record:
  the effect's guard \<open>assessmentHistory.length > 0\<close> skips the averaging, so nothing is
  divided and nothing is thrown.
\<close>

theorem dashboard_empty_history:
  "Dashboard_stats [] =
     \<lparr>totalAssessments = 0, avgCarbonFootprint = 0,
      avgSustainabilityScore = 0, avgCircularityIndex = 0\<rparr>"
  by (simp add: Dashboard_stats_def Dashboard_effect_def dashboardStats_initial_def)

section \<open>Severity colours in the two views\<close>

text \<open>
  Claim C5. The comparison view bands a higher-is-better score with the cutoffs 80 and
  60. The dashboard tests \<open>value > 0.8 || value > 80\<close>, so a sustainability score of 70
  is \<open>warning\<close> in the comparison view and \<open>success\<close> on the dashboard; its \<open>carbon\<close>
  branch uses the cutoff 200 where the comparison view uses 100.
\<close>

theorem banding_differs_between_views:
  "getMetricColor 70 ''sustainability_score'' = ''warning''
   \<and> getImpactColor (Some 70) ''sustainability'' = ''success''
   \<and> getMetricColor 150 ''carbon_footprint'' = ''error''
   \<and> getImpactColor (Some 150) ''carbon'' = ''warning''"
  by (simp add: getMetricColor_def lowerIsBetter_def higherIsBetter_def
      getImpactColor_def js_gt_opt_def js_lt_opt_def)

section \<open>The best value and its index\<close>

lemma Math_min_Min: "vs \<noteq> [] \<Longrightarrow> Math_min vs = Num (Min (set vs))"
proof (cases vs)
  case (Cons x xs)
  then show ?thesis using Min.set_eq_fold [of x xs] by simp
qed simp

lemma Math_max_Max: "vs \<noteq> [] \<Longrightarrow> Math_max vs = Num (Max (set vs))"
proof (cases vs)
  case (Cons x xs)
  then show ?thesis using Max.set_eq_fold [of x xs] by simp
qed simp

lemma indexOf_mem: "v \<in> Num ` set vs \<Longrightarrow> 0 \<le> indexOf vs v"
  by (induction vs) (auto simp: Let_def)

lemma indexOf_spec:
  "0 \<le> indexOf vs v \<Longrightarrow>
     nat (indexOf vs v) < length vs \<and> Num (vs ! nat (indexOf vs v)) = v
     \<and> (\<forall>j < nat (indexOf vs v). Num (vs ! j) \<noteq> v)"
proof (induction vs)
  case Nil
  then show ?case by simp
next
  case (Cons x xs)
  show ?case
  proof (cases "Num x = v")
    case True
    then show ?thesis by simp
  next
    case False
    with Cons.prems have nn: "0 \<le> indexOf xs v"
      by (simp add: Let_def split: if_splits)
    then have eq: "indexOf (x # xs) v = indexOf xs v + 1"
      using False by (simp add: Let_def)
    have n: "nat (indexOf xs v + 1) = Suc (nat (indexOf xs v))"
      using nn by simp
    from Cons.IH [OF nn] False show ?thesis
      unfolding eq n by (auto simp: less_Suc_eq_0_disj)
  qed
qed

lemma bestValue_mem: "vs \<noteq> [] \<Longrightarrow> bestValue key vs \<in> Num ` set vs"
proof -
  assume ne: "vs \<noteq> []"
  have "Min (set vs) \<in> set vs" "Max (set vs) \<in> set vs"
    using ne by (simp_all add: Min_in Max_in)
  then show ?thesis
    using ne by (simp add: bestValue_def Math_min_Min Math_max_Max)
qed

text \<open>
  The six metrics of the table split as \<open>getMetricColor\<close>'s two lists say, and the test
  in \<open>bestValue\<close> names exactly the lower-is-better ones among them.
\<close>

lemma metrics_directionality:
  "key \<in> set metrics \<Longrightarrow>
     (key \<in> set lowerIsBetter \<longleftrightarrow>
        key = ''carbon_footprint'' \<or> key = ''energy_consumption'' \<or> key = ''water_usage'')
   \<and> (key \<in> set higherIsBetter \<longleftrightarrow>
        \<not> (key = ''carbon_footprint'' \<or> key = ''energy_consumption'' \<or> key = ''water_usage''))"
  by (auto simp: metrics_def lowerIsBetter_def higherIsBetter_def)

text \<open>The table has one row per entry of \<open>metrics\<close>, in that order.\<close>

lemma comparison_rows_keys:
  "comparison_rows avail selected keys = Inr rows \<Longrightarrow> map row_key rows = keys"
proof (induction keys arbitrary: rows)
  case Nil
  then show ?case by simp
next
  case (Cons key keys)
  then show ?case
    by (auto simp: comparison_row_def render_row_def split: sum.splits)
qed

text \<open>
  Claim C3, as stated, fails: \<open>waste_generation\<close> is a lower-is-better metric of
  \<open>getMetricColor\<close>, but it is not one of the table's \<open>metrics\<close>, so the table determines
  no best value for it; and the test in \<open>bestValue\<close> does not name it, so on the aligned
  values \<open>[10, 90]\<close> the expression yields \<open>90\<close>, which is not their minimum.
\<close>

theorem waste_generation_not_ranked_by_minimum:
  "''waste_generation'' \<in> set lowerIsBetter
   \<and> ''waste_generation'' \<notin> set metrics
   \<and> metric_values [aluminium_primary, aluminium_recycling] ''waste_generation'' [0, 1]
       = Inr [10, 90]
   \<and> bestValue ''waste_generation'' [10, 90] = Num 90
   \<and> bestIndex ''waste_generation'' [10, 90] = 1
   \<and> Min (set [10, 90 :: real]) = 10"
  by (simp add: lowerIsBetter_def metrics_def metric_value_def array_get_def or_zero_def
      aluminium_primary_def aluminium_recycling_def bestValue_def bestIndex_def)

text \<open>
  Claim C3, amended. The comparison table has exactly one row for each of its six
  \<open>metrics\<close>. For each of them and a non-empty list of aligned values, the best value is
  the minimum of the values when the metric is lower-is-better and the maximum when it is
  higher-is-better, and the best index is a position of the list that holds this value.
  In particular \<open>carbon_footprint\<close> with \<open>[80, 40, 60]\<close> and \<open>sustainability_score\<close> with
  \<open>[70, 85, 60]\<close> both have best index 1.
\<close>

theorem best_value_by_directionality:
  "(\<forall>key vs. key \<in> set metrics \<and> vs \<noteq> [] \<longrightarrow>
      (key \<in> set lowerIsBetter \<or> key \<in> set higherIsBetter)
    \<and> (key \<in> set lowerIsBetter \<longrightarrow>
          bestValue key vs = Num (Min (set vs)) \<and> vs ! nat (bestIndex key vs) = Min (set vs))
    \<and> (key \<in> set higherIsBetter \<longrightarrow>
          bestValue key vs = Num (Max (set vs)) \<and> vs ! nat (bestIndex key vs) = Max (set vs))
    \<and> 0 \<le> bestIndex key vs \<and> nat (bestIndex key vs) < length vs)
   \<and> (\<forall>s rows. renderComparisonTable s = Inr (Some rows) \<longrightarrow> map row_key rows = metrics)
   \<and> bestValue ''carbon_footprint'' [80, 40, 60] = Num 40
   \<and> bestIndex ''carbon_footprint'' [80, 40, 60] = 1
   \<and> bestValue ''sustainability_score'' [70, 85, 60] = Num 85
   \<and> bestIndex ''sustainability_score'' [70, 85, 60] = 1"
proof -
  have general: "(key \<in> set lowerIsBetter \<or> key \<in> set higherIsBetter)
    \<and> (key \<in> set lowerIsBetter \<longrightarrow>
          bestValue key vs = Num (Min (set vs)) \<and> vs ! nat (bestIndex key vs) = Min (set vs))
    \<and> (key \<in> set higherIsBetter \<longrightarrow>
          bestValue key vs = Num (Max (set vs)) \<and> vs ! nat (bestIndex key vs) = Max (set vs))
    \<and> 0 \<le> bestIndex key vs \<and> nat (bestIndex key vs) < length vs"
    if "key \<in> set metrics" "vs \<noteq> []" for key and vs :: "real list"
  proof -
    have nn: "0 \<le> indexOf vs (bestValue key vs)"
      using bestValue_mem [OF that(2)] by (rule indexOf_mem)
    from indexOf_spec [OF nn]
    have pos: "nat (bestIndex key vs) < length vs"
      and at: "Num (vs ! nat (bestIndex key vs)) = bestValue key vs"
      by (simp_all add: bestIndex_def)
    have best: "key \<in> set lowerIsBetter \<longrightarrow> bestValue key vs = Num (Min (set vs))"
      "key \<in> set higherIsBetter \<longrightarrow> bestValue key vs = Num (Max (set vs))"
      "key \<in> set lowerIsBetter \<or> key \<in> set higherIsBetter"
      using metrics_directionality [OF that(1)] that(2)
      by (auto simp: bestValue_def Math_min_Min Math_max_Max)
    from nn have "0 \<le> bestIndex key vs" by (simp add: bestIndex_def)
    with pos at best show ?thesis by auto
  qed
  have rows: "map row_key rows = metrics"
    if "renderComparisonTable s = Inr (Some rows)" for s rows
    using that
    by (auto simp: renderComparisonTable_def split: if_splits sum.splits
        dest: comparison_rows_keys)
  have ex: "bestValue ''carbon_footprint'' [80, 40, 60] = Num 40"
    "bestIndex ''carbon_footprint'' [80, 40, 60] = 1"
    "bestValue ''sustainability_score'' [70, 85, 60] = Num 85"
    "bestIndex ''sustainability_score'' [70, 85, 60] = 1"
    by (simp_all add: bestIndex_def bestValue_def)
  from general rows ex show ?thesis by blast
qed

theorem best_value_by_directionality_witness:
  "''water_usage'' \<in> set metrics \<and> [5, 12, 30 :: real] \<noteq> []
   \<and> ''water_usage'' \<in> set lowerIsBetter
   \<and> bestValue ''water_usage'' [5, 12, 30] = Num 5
   \<and> bestIndex ''water_usage'' [5, 12, 30] = 0
   \<and> [5, 12, 30 :: real] ! nat (bestIndex ''water_usage'' [5, 12, 30]) = 5
   \<and> ''material_efficiency'' \<in> set metrics \<and> [10, 20, 90 :: real] \<noteq> []
   \<and> ''material_efficiency'' \<in> set higherIsBetter
   \<and> bestValue ''material_efficiency'' [10, 20, 90] = Num 90
   \<and> bestIndex ''material_efficiency'' [10, 20, 90] = 2
   \<and> [10, 20, 90 :: real] ! nat (bestIndex ''material_efficiency'' [10, 20, 90]) = 90"
proof -
  have h1: "''water_usage'' \<in> set metrics \<and> [5, 12, 30 :: real] \<noteq> []"
    and h2: "''material_efficiency'' \<in> set metrics \<and> [10, 20, 90 :: real] \<noteq> []"
    by (simp_all add: metrics_def)
  have l: "''water_usage'' \<in> set lowerIsBetter"
    by (simp add: lowerIsBetter_def)
  have h: "''material_efficiency'' \<in> set higherIsBetter"
    by (simp add: higherIsBetter_def)
  from best_value_by_directionality h1 l
  have low: "bestValue ''water_usage'' [5, 12, 30] = Num (Min (set [5, 12, 30]))
      \<and> [5, 12, 30 :: real] ! nat (bestIndex ''water_usage'' [5, 12, 30]) = Min (set [5, 12, 30])"
    by blast
  from best_value_by_directionality h2 h
  have high: "bestValue ''material_efficiency'' [10, 20, 90] = Num (Max (set [10, 20, 90]))
      \<and> [10, 20, 90 :: real] ! nat (bestIndex ''material_efficiency'' [10, 20, 90])
        = Max (set [10, 20, 90])"
    by blast
  have i1: "bestIndex ''water_usage'' [5, 12, 30] = 0"
    and i2: "bestIndex ''material_efficiency'' [10, 20, 90] = 2"
    by (simp_all add: bestIndex_def bestValue_def)
  from low high h1 h2 l h i1 i2 show ?thesis by simp
qed



section \<open>The improvement against the baseline\<close>

lemmas js_arith = improvement_def js_div_def js_times_def js_gt_def js_lt_def

text \<open>
  With a non-zero baseline the improvement is \<open>(baseline - current) / baseline * 100\<close>,
  whatever the metric: \<open>getImprovementIcon\<close> is not told which metric it serves.
\<close>

lemma improvement_nonzero_baseline:
  "baseline \<noteq> 0 \<Longrightarrow>
     improvement current baseline = Num ((baseline - current) / baseline * 100)"
  by (simp add: js_arith)

text \<open>
  Claim C1. \<open>sustainability_score\<close> is a higher-is-better metric. For the aligned values
  \<open>[70, 85]\<close> the second record's improvement is computed as \<open>(70 - 85) / 70 * 100\<close>, the
  lower-is-better formula, not as \<open>(85 - 70) / 70 * 100\<close>; the rise of the score is shown
  with the icon of a deterioration.
\<close>

theorem improvement_ignores_directionality:
  "''sustainability_score'' \<in> set higherIsBetter
   \<and> metric_values [steel_primary, steel_recycling] ''sustainability_score'' [0, 1]
       = Inr [70, 85]
   \<and> improvement 85 70 = Num ((70 - 85) / 70 * 100)
   \<and> improvement 85 70 \<noteq> Num ((85 - 70) / 70 * 100)
   \<and> getImprovementIcon 85 70 = TrendingDown_error"
  by (simp add: higherIsBetter_def metric_value_def array_get_def or_zero_def
      steel_primary_def steel_recycling_def getImprovementIcon_def js_arith)

text \<open>
  Claim C2, as stated, fails: with baseline \<open>0\<close> and value \<open>40\<close> the improvement is the
  number \<open>-Infinity\<close>, not \<open>null\<close>, and an icon is drawn from it.
\<close>

theorem zero_baseline_not_null:
  "improvement 40 0 = NegInfinity \<and> improvement 40 0 \<noteq> Null
   \<and> getImprovementIcon 40 0 = TrendingDown_error"
  by (simp add: getImprovementIcon_def js_arith)

text \<open>
  Claim C2, amended. With baseline \<open>0\<close> nothing is thrown and the improvement is never
  \<open>null\<close> and never a finite number: it is \<open>NaN\<close> when the record's own value is \<open>0\<close>,
  where the neutral sign is drawn, and an infinity otherwise, where a trend icon is drawn.
\<close>

theorem zero_baseline_improvement:
  "improvement current 0 \<noteq> Null
   \<and> (\<forall>x. improvement current 0 \<noteq> Num x)
   \<and> (current = 0 \<longrightarrow>
        improvement current 0 = NaN \<and> getImprovementIcon current 0 = Remove_warning)
   \<and> (current \<noteq> 0 \<longrightarrow>
        (improvement current 0 = PosInfinity \<or> improvement current 0 = NegInfinity)
      \<and> (getImprovementIcon current 0 = TrendingUp_success
          \<or> getImprovementIcon current 0 = TrendingDown_error))"
  by (simp add: getImprovementIcon_def js_arith)

theorem zero_baseline_improvement_witness:
  "improvement 0 0 = NaN \<and> getImprovementIcon 0 0 = Remove_warning
   \<and> (25 :: real) \<noteq> 0
   \<and> improvement 25 0 \<noteq> Null
   \<and> (improvement 25 0 = PosInfinity \<or> improvement 25 0 = NegInfinity)
   \<and> (getImprovementIcon 25 0 = TrendingUp_success
      \<or> getImprovementIcon 25 0 = TrendingDown_error)"
  using zero_baseline_improvement [of 0] zero_baseline_improvement [of 25]
  by simp

section \<open>A metric missing from a record\<close>

lemma metric_value_update:
  assumes "array_get avail i = Some a" "results a = Some r" "map_of r key = None"
  shows "metric_value (avail[i := a\<lparr>results := Some ((key, 0) # r)\<rparr>]) k j
       = metric_value avail k j"
  using assms
  by (auto simp: metric_value_def array_get_def or_zero_def nth_list_update split: if_splits)

lemma metric_values_cong:
  "(\<And>j. metric_value avail' k j = metric_value avail k j) \<Longrightarrow>
     metric_values avail' k sel = metric_values avail k sel"
  by (induction sel) (simp_all split: sum.splits)

lemma comparison_rows_cong:
  "(\<And>k j. metric_value avail' k j = metric_value avail k j) \<Longrightarrow>
     comparison_rows avail' sel keys = comparison_rows avail sel keys"
proof (induction keys)
  case Nil
  show ?case by simp
next
  case (Cons key keys)
  have "comparison_row avail' sel key = comparison_row avail sel key"
    unfolding comparison_row_def using metric_values_cong [of avail' key avail sel] Cons.prems
    by simp
  with Cons.IH [OF Cons.prems] show ?case by (simp split: sum.splits)
qed

text \<open>
  Claim C6, as stated, fails: a record without \<open>carbon_footprint\<close> contributes \<open>0\<close>, but
  the table is the very one rendered for a record that has \<open>carbon_footprint = 0\<close>, so
  nothing in it marks the metric as incomplete.
\<close>

theorem missing_metric_not_flagged:
  "map_of [(''sustainability_score'', 70 :: real)] ''carbon_footprint'' = None
   \<and> comparison_row [copper_without_carbon, steel_recycling] [0, 1] ''carbon_footprint''
     = Inr \<lparr>row_key = ''carbon_footprint'',
            row_cells =
              [\<lparr>cell_value = 0, cell_color = ''success'', cell_icon = None\<rparr>,
               \<lparr>cell_value = 40, cell_color = ''success'',
                cell_icon = Some TrendingDown_error\<rparr>],
            row_bestValue = Num 0, row_bestIndex = 0, row_best = Option_number 1\<rparr>
   \<and> renderComparisonTable (compared [copper_without_carbon, steel_recycling] [0, 1])
     = renderComparisonTable (compared [copper_zero_carbon, steel_recycling] [0, 1])"
  by (simp add: comparison_row_def metric_value_def array_get_def or_zero_def render_row_def
      render_cell_def bestIndex_def bestValue_def getMetricColor_def lowerIsBetter_def
      higherIsBetter_def getImprovementIcon_def js_arith renderComparisonTable_def compared_def
      metrics_def copper_without_carbon_def copper_zero_carbon_def steel_recycling_def)

text \<open>
  Claim C6, amended. A record whose results lack the metric's key contributes the value
  \<open>0\<close> for that metric, without an error, and the rendered table is the same as if the
  record held the key with value \<open>0\<close>.
\<close>

theorem missing_metric_counts_as_zero:
  assumes "array_get (availableAssessments s) i = Some a"
    and "results a = Some r" and "map_of r key = None"
  shows "metric_value (availableAssessments s) key i = Inr 0
       \<and> renderComparisonTable
           (s\<lparr>availableAssessments :=
                (availableAssessments s)[i := a\<lparr>results := Some ((key, 0) # r)\<rparr>]\<rparr>)
         = renderComparisonTable s"
proof -
  have "metric_value (availableAssessments s) key i = Inr 0"
    using assms by (simp add: metric_value_def or_zero_def)
  moreover have "comparison_rows
      ((availableAssessments s)[i := a\<lparr>results := Some ((key, 0) # r)\<rparr>])
      (selectedAssessments s) metrics
    = comparison_rows (availableAssessments s) (selectedAssessments s) metrics"
    by (rule comparison_rows_cong) (rule metric_value_update [OF assms])
  ultimately show ?thesis by (simp add: renderComparisonTable_def)
qed

theorem missing_metric_counts_as_zero_witness:
  "array_get (availableAssessments (compared [copper_without_carbon, steel_recycling] [0, 1])) 0
     = Some copper_without_carbon
   \<and> results copper_without_carbon = Some [(''sustainability_score'', 70)]
   \<and> map_of [(''sustainability_score'', 70 :: real)] ''carbon_footprint'' = None
   \<and> metric_value [copper_without_carbon, steel_recycling] ''carbon_footprint'' 0 = Inr 0"
proof -
  let ?s = "compared [copper_without_carbon, steel_recycling] [0, 1]"
  have a: "array_get (availableAssessments ?s) 0 = Some copper_without_carbon"
    by (simp add: compared_def array_get_def)
  have r: "results copper_without_carbon = Some [(''sustainability_score'', 70)]"
    by (simp add: copper_without_carbon_def)
  have k: "map_of [(''sustainability_score'', 70 :: real)] ''carbon_footprint'' = None"
    by simp
  from missing_metric_counts_as_zero [OF a r k]
  have "metric_value (availableAssessments ?s) ''carbon_footprint'' 0 = Inr 0" by blast
  then have "metric_value [copper_without_carbon, steel_recycling] ''carbon_footprint'' 0 = Inr 0"
    by (simp add: compared_def)
  with a r k show ?thesis by blast
qed

section \<open>The selection keeps its invariant\<close>

lemma validAssessments_have_results: "a \<in> set (validAssessments history) \<Longrightarrow> has_results a"
  by (simp add: validAssessments_def)

lemma add_keeps_inv:
  assumes "selection_inv s" and "offered s i" and "has_results (availableAssessments s ! i)"
  shows "selection_inv (handleAddAssessment s i)"
  using assms by (auto simp: selection_inv_def handleAddAssessment_def offered_def)

lemma remove_keeps_inv:
  assumes "selection_inv s"
  shows "selection_inv (handleRemoveAssessment s i)"
  using assms
  by (auto simp: selection_inv_def handleRemoveAssessment_def offered_def
      intro: order_trans [OF length_filter_le])

lemma handle_event_available:
  "availableAssessments (handle_event s e) = availableAssessments s"
  by (cases e) (simp_all add: handleAddAssessment_def handleRemoveAssessment_def)

lemma handle_event_keeps_inv:
  assumes "availableAssessments s = validAssessments history"
    and "selection_inv s" and "event_offered history e"
  shows "selection_inv (handle_event s e)"
proof (cases e)
  case (Add_clicked i)
  with assms(1,3) have off: "offered s i"
    by (simp add: offered_def)
  with assms(1) have "availableAssessments s ! i \<in> set (validAssessments history)"
    by (simp add: offered_def)
  then have "has_results (availableAssessments s ! i)"
    by (rule validAssessments_have_results)
  with assms(2) off show ?thesis
    unfolding Add_clicked handle_event.simps by (rule add_keeps_inv)
next
  case (Remove_clicked i)
  from assms(2) show ?thesis
    unfolding Remove_clicked handle_event.simps by (rule remove_keeps_inv)
qed

lemma events_keep_inv:
  assumes "availableAssessments s = validAssessments history"
    and "selection_inv s" and "\<forall>e \<in> set events. event_offered history e"
  shows "selection_inv (foldl handle_event s events)"
  using assms
proof (induction events arbitrary: s)
  case Nil
  then show ?case by simp
next
  case (Cons e events)
  have "selection_inv (handle_event s e)"
    using Cons.prems by (intro handle_event_keeps_inv [of s history e]) simp_all
  moreover have "availableAssessments (handle_event s e) = validAssessments history"
    using Cons.prems(1) by (simp add: handle_event_available)
  ultimately show ?case
    using Cons.IH [of "handle_event s e"] Cons.prems(3) by simp
qed

lemma mounted_inv:
  "selection_inv (ComparisonTool_mounted history)
   \<and> availableAssessments (ComparisonTool_mounted history) = validAssessments history"
  by (simp add: selection_inv_def ComparisonTool_mounted_def ComparisonTool_effect_def
      ComparisonTool_initial_def)

text \<open>
  Claim C10. Once the component is mounted on a history, its available assessments are
  the history's records with results and the selection is empty. After every sequence
  of add clicks on offered cards and remove clicks, the selection satisfies the
  invariant: its indices are pairwise distinct, at most four, and each is the index of an
  offered record whose results are non-empty. More generally, from any state that
  satisfies the invariant, adding an offered index or removing any index keeps it.
\<close>

theorem selection_invariant:
  "((\<forall>e \<in> set events. event_offered history e) \<longrightarrow>
      selection_inv (foldl handle_event (ComparisonTool_mounted history) events))
   \<and> (availableAssessments s = validAssessments history \<and> selection_inv s \<and> offered s i
        \<longrightarrow> selection_inv (handleAddAssessment s i))
   \<and> (selection_inv s \<longrightarrow> selection_inv (handleRemoveAssessment s i))"
proof -
  have run: "selection_inv (foldl handle_event (ComparisonTool_mounted history) events)"
    if "\<forall>e \<in> set events. event_offered history e"
    using mounted_inv [of history] that
    by (intro events_keep_inv [of _ history]) simp_all
  have add: "selection_inv (handleAddAssessment s i)"
    if "availableAssessments s = validAssessments history" "selection_inv s" "offered s i"
    using handle_event_keeps_inv [of s history "Add_clicked i"] that
    by (simp add: offered_def)
  from run add remove_keeps_inv [of s i] show ?thesis by blast
qed

theorem selection_invariant_witness:
  "list_all (event_offered [steel_primary, empty_results, steel_recycling])
     [Add_clicked 0, Add_clicked 1, Add_clicked 0, Remove_clicked 0]
   \<and> foldl handle_event (ComparisonTool_mounted [steel_primary, empty_results, steel_recycling])
       [Add_clicked 0, Add_clicked 1, Add_clicked 0, Remove_clicked 0]
     = selecting [steel_primary, steel_recycling] [1]
   \<and> selection_inv (selecting [steel_primary, steel_recycling] [1])"
proof -
  let ?h = "[steel_primary, empty_results, steel_recycling]"
  let ?es = "[Add_clicked 0, Add_clicked 1, Add_clicked 0, Remove_clicked 0]"
  have valid: "validAssessments ?h = [steel_primary, steel_recycling]"
    by (simp add: validAssessments_def has_results_def steel_primary_def
        steel_recycling_def empty_results_def)
  have all: "list_all (event_offered ?h) ?es"
    by (simp add: valid)
  then have off: "\<forall>e \<in> set ?es. event_offered ?h e"
    by (simp only: list_all_iff)
  have run: "foldl handle_event (ComparisonTool_mounted ?h) ?es
      = selecting [steel_primary, steel_recycling] [1]"
    by (simp add: ComparisonTool_mounted_def ComparisonTool_effect_def
        ComparisonTool_initial_def valid handleAddAssessment_def handleRemoveAssessment_def
        selecting_def)
  from selection_invariant [of ?es ?h] off
  have "selection_inv (foldl handle_event (ComparisonTool_mounted ?h) ?es)" by blast
  with all run show ?thesis by simp
qed

section \<open>When the comparison is refused\<close>





end
